theory Spec2Isabelle
  imports Complex_Main "HOL-Library.Sublist"
begin

section \<open>Common Python values\<close>

text \<open>
  Python floats are modelled as real numbers: the thresholds and weights of the
  source (0.1, 0.2, 0.5, ...) are the exact decimal fractions, and rounding is not modelled.
  Python strings and byte strings are Isabelle strings; characters are bytes, and case
  folding and word characters are the ASCII ones.
\<close>

datatype error = AttributeError | KeyError | TypeError | IOError

text \<open>
  A dynamically typed value, as \<open>request.json()\<close> and \<open>json.loads\<close> produce them and
  as the extractors hand them on.
\<close>

datatype pyval =
    PNone
  | PBool bool
  | PInt int
  | PFloat real
  | PStr string
  | PList "pyval list"
  | PDict "(string \<times> pyval) list"

text \<open>\<open>d.get(key, default)\<close> on a dictionary kept as an association list.\<close>

definition dict_get :: "(string \<times> 'v) list \<Rightarrow> string \<Rightarrow> 'v \<Rightarrow> 'v" where
  "dict_get d key dflt = (case map_of d key of None \<Rightarrow> dflt | Some v \<Rightarrow> v)"

section \<open>Drift detection (audit_core/detection/drift.py)\<close>

text \<open>One entry of \<open>current_window\<close>: the dictionary \<open>current_metrics\<close>.\<close>

record current_metrics =
  hallucination_score :: real
  response_time_ms :: int
  token_count :: "int option"

record DriftDetector =
  window_size :: int
  reference_stats :: "(string \<times> real) list"
  current_window :: "current_metrics list"

text \<open>
  \<open>__init__\<close> with \<open>_load_reference_data\<close>: the argument is what reading the reference
  file gives, \<open>None\<close> when no path was given or reading raised.
\<close>

definition DriftDetector_init :: "(string \<times> real) list option \<Rightarrow> int \<Rightarrow> DriftDetector" where
  "DriftDetector_init reference_data w =
     \<lparr>window_size = w,
      reference_stats = (case reference_data of None \<Rightarrow> [] | Some stats \<Rightarrow> stats),
      current_window = []\<rparr>"

definition is_metric_drifting :: "real \<Rightarrow> real \<Rightarrow> real \<Rightarrow> bool \<Rightarrow> bool" where
  "is_metric_drifting current_value reference_value threshold is_time =
     (if reference_value = 0 then False
      else if is_time then
        (let relative_change = (current_value - reference_value) / reference_value
         in relative_change > threshold)
      else
        (let relative_change = \<bar>current_value - reference_value\<bar> / reference_value
         in relative_change > threshold))"

text \<open>The mean of a data-frame column with at least one value.\<close>

definition mean :: "real list \<Rightarrow> real" where
  "mean xs = sum_list xs / real (length xs)"

text \<open>The values a column has; rows without the key are skipped by the mean.\<close>

definition present :: "'a option list \<Rightarrow> 'a list" where
  "present xs = concat (map (\<lambda>x. case x of None \<Rightarrow> [] | Some v \<Rightarrow> [v]) xs)"

text \<open>
  \<open>detect_drift\<close> returns its result, or the exception it raises, and the detector with
  the updated window. A data frame made from an empty window has no columns, so reading
  the column \<open>hallucination_score\<close> raises \<open>KeyError\<close>.
\<close>

definition detect_drift ::
  "DriftDetector \<Rightarrow> real \<Rightarrow> int \<Rightarrow> int option \<Rightarrow> (error + bool) \<times> DriftDetector" where
  "detect_drift self hs rt tc =
     (let metrics = \<lparr>hallucination_score = hs, response_time_ms = rt, token_count = tc\<rparr>;
          appended = current_window self @ [metrics];
          window = (if int (length appended) > window_size self then tl appended else appended);
          self' = self\<lparr>current_window := window\<rparr>
      in if int (length window) < window_size self \<or> reference_stats self = [] then
           (Inr False, self')
         else if window = [] then (Inl KeyError, self')
         else
           (let current_stats =
                  [(''hallucination_score_mean'', mean (map hallucination_score window)),
                   (''response_time_ms_mean'', mean (map (\<lambda>m. real_of_int (response_time_ms m)) window))]
                  @ (if present (map token_count window) \<noteq> []
                     then [(''token_count_mean'',
                            mean (map real_of_int (present (map token_count window))))]
                     else []);
                hallucination_drift =
                  is_metric_drifting
                    (dict_get current_stats ''hallucination_score_mean'' 0)
                    (dict_get (reference_stats self) ''hallucination_score_mean'' 0)
                    0.2 False;
                response_time_drift =
                  is_metric_drifting
                    (dict_get current_stats ''response_time_ms_mean'' 0)
                    (dict_get (reference_stats self) ''response_time_ms_mean'' 0)
                    0.5 True
            in (Inr (hallucination_drift \<or> response_time_drift), self')))"

text \<open>A run of calls; the window is updated whether or not a call raises.\<close>

fun observe_all :: "DriftDetector \<Rightarrow> current_metrics list \<Rightarrow> DriftDetector" where
  "observe_all self [] = self"
| "observe_all self (m # ms) =
     observe_all (snd (detect_drift self (hallucination_score m) (response_time_ms m) (token_count m))) ms"

text \<open>
  The result the specification words for a full window: the disjunction over all the
  evaluated metrics, the token count among them when the window tracks it (with the
  default threshold and the two-sided test of \<open>is_metric_drifting\<close>).
\<close>

definition drift_over_evaluated_metrics :: "(string \<times> real) list \<Rightarrow> current_metrics list \<Rightarrow> bool" where
  "drift_over_evaluated_metrics ref window =
     (is_metric_drifting (mean (map hallucination_score window))
        (dict_get ref ''hallucination_score_mean'' 0) 0.2 False
      \<or> is_metric_drifting (mean (map (\<lambda>m. real_of_int (response_time_ms m)) window))
        (dict_get ref ''response_time_ms_mean'' 0) 0.5 True
      \<or> (present (map token_count window) \<noteq> []
         \<and> is_metric_drifting (mean (map real_of_int (present (map token_count window))))
             (dict_get ref ''token_count_mean'' 0) 0.2 False))"

section \<open>Hallucination scoring (audit_core/detection/hallucination.py)\<close>

definition lower_char :: "char \<Rightarrow> char" where
  "lower_char c =
     (let n = (of_char c :: nat) in if 65 \<le> n \<and> n \<le> 90 then char_of (n + 32) else c)"

definition lower :: "string \<Rightarrow> string" where
  "lower s = map lower_char s"

text \<open>\<open>sub in s\<close> on strings.\<close>

fun str_in :: "string \<Rightarrow> string \<Rightarrow> bool" where
  "str_in sub [] = (sub = [])"
| "str_in sub (c # cs) = (prefix sub (c # cs) \<or> str_in sub cs)"

definition hallucination_indicators :: "string list" where
  "hallucination_indicators =
     [''i'' @ [CHR 0x27] @ ''m not sure'',
      ''i don'' @ [CHR 0x27] @ ''t know'',
      ''i think'',
      ''perhaps'',
      ''probably'',
      ''it'' @ [CHR 0x27] @ ''s possible'',
      ''might be'',
      ''it'' @ [CHR 0x27] @ ''s likely'',
      ''it'' @ [CHR 0x27] @ ''s probable'']"

text \<open>The loop over the indicators and the cap of \<open>hesitation_score\<close>.\<close>

definition hesitation_score :: "string \<Rightarrow> real" where
  "hesitation_score completion_lower =
     min (fold (\<lambda>indicator score. if str_in indicator completion_lower then score + 0.1 else score)
            hallucination_indicators 0)
         0.5"

definition is_word_char :: "char \<Rightarrow> bool" where
  "is_word_char c =
     (let n = (of_char c :: nat)
      in (48 \<le> n \<and> n \<le> 57) \<or> (65 \<le> n \<and> n \<le> 90) \<or> n = 95 \<or> (97 \<le> n \<and> n \<le> 122))"

text \<open>
  \<open>re.findall(r'\b\w+\b', s)\<close>: the maximal runs of word characters, left to right. The
  first argument is the run being read.
\<close>

fun findall_words :: "string \<Rightarrow> string \<Rightarrow> string list" where
  "findall_words run [] = (if run = [] then [] else [run])"
| "findall_words run (c # cs) =
     (if is_word_char c then findall_words (run @ [c]) cs
      else (if run = [] then [] else [run]) @ findall_words [] cs)"

definition overlap_score :: "string \<Rightarrow> string \<Rightarrow> real" where
  "overlap_score prompt_lower completion_lower =
     (let prompt_words = set (findall_words [] prompt_lower);
          completion_words = set (findall_words [] completion_lower)
      in if card prompt_words = 0 \<or> card completion_words = 0 then 0.5
         else
           (let common_words = prompt_words \<inter> completion_words;
                overlap_ratio = real (card common_words) / real (max 1 (card completion_words))
            in max 0 (0.7 - overlap_ratio)))"

text \<open>
  The embedder with the cosine similarity: the similarity of the two encodings, or \<open>None\<close>
  when encoding or the similarity raises (the inner \<open>try\<close> of \<open>_heuristic_score\<close>).
\<close>

type_synonym embedder = "string \<Rightarrow> string \<Rightarrow> real option"

definition clip :: "real \<Rightarrow> real \<Rightarrow> real \<Rightarrow> real" where
  "clip x lo hi = min (max x lo) hi"

text \<open>
  \<open>_heuristic_score\<close>. The arguments are annotated \<open>str\<close>, but nothing checks that:
  \<open>.lower()\<close> on any other value raises \<open>AttributeError\<close>.
\<close>

definition heuristic_score :: "embedder \<Rightarrow> pyval \<Rightarrow> pyval \<Rightarrow> error + real" where
  "heuristic_score emb prompt completion =
     (case prompt of
        PStr p \<Rightarrow>
          (case completion of
             PStr c \<Rightarrow>
               (let prompt_lower = lower p;
                    completion_lower = lower c;
                    hesitation = hesitation_score completion_lower;
                    overlap = overlap_score prompt_lower completion_lower;
                    semantic_divergence = (case emb p c of Some sim \<Rightarrow> 1 - sim | None \<Rightarrow> 0.5);
                    weighted_sum = semantic_divergence * 0.6 + hesitation * 0.2 + overlap * 0.2
                in Inr (clip weighted_sum 0 1))
           | _ \<Rightarrow> Inl AttributeError)
      | _ \<Rightarrow> Inl AttributeError)"

definition score_hallucination :: "embedder \<Rightarrow> pyval \<Rightarrow> pyval \<Rightarrow> real" where
  "score_hallucination emb prompt completion =
     (case heuristic_score emb prompt completion of Inr score \<Rightarrow> score | Inl e \<Rightarrow> 0.5)"

definition get_fact_consistency :: "embedder \<Rightarrow> pyval \<Rightarrow> pyval \<Rightarrow> real" where
  "get_fact_consistency emb prompt completion =
     (let score = score_hallucination emb prompt completion in 1.0 - score)"

text \<open>
  The hesitation score as the specification words it: 0.1 for every occurrence of an
  indicator in the completion, repeated occurrences of one indicator counted each time.
\<close>

fun count_occurrences :: "string \<Rightarrow> string \<Rightarrow> nat" where
  "count_occurrences sub [] = 0"
| "count_occurrences sub (c # cs) =
     (if prefix sub (c # cs) then 1 else 0) + count_occurrences sub cs"

definition hesitation_per_occurrence :: "string \<Rightarrow> real" where
  "hesitation_per_occurrence completion_lower =
     min (0.1 * real (sum_list (map (\<lambda>indicator. count_occurrences indicator completion_lower)
                                  hallucination_indicators)))
         0.5"

section \<open>Metrics tracking (audit_core/metrics/base.py, standard.py)\<close>

text \<open>
  A record of the log: the dictionary \<open>log_inference\<close> builds. A key that may be missing
  from the dictionary is an option: \<open>fact_consistency\<close> is only set for low scores, the
  resource keys are missing from records of older versions, and \<open>disk_percent\<close> is
  \<open>None\<close> when sampling failed.
\<close>

record inference_record =
  rec_request_id :: string
  rec_timestamp :: string
  rec_model :: string
  rec_tokens_in :: int
  rec_tokens_out :: int
  rec_hallucination_score :: real
  rec_drift_detected :: bool
  rec_response_time_ms :: int
  rec_status :: pyval
  rec_fact_consistency :: "real option"
  rec_cpu_time_sec :: "real option"
  rec_memory_delta_bytes :: "int option"
  rec_disk_percent :: "real option"

text \<open>
  A line of \<open>metrics.jsonl\<close>, by what \<open>_load_metrics\<close> makes of it: blank (skipped),
  a record (\<open>json.loads\<close> gives back what \<open>json.dumps\<close> wrote), or text that
  \<open>json.loads\<close> rejects.
\<close>

datatype line = BlankLine | RecordLine inference_record | BadLine

text \<open>One reading of the process counters (\<open>cpu_times()\<close>, \<open>memory_info().rss\<close>).\<close>

record probe =
  cpu_user :: real
  cpu_system :: real
  rss :: int

text \<open>
  What a call reads from outside the program: the clock, the process counters before and
  after, the disk usage (\<open>None\<close> when \<open>psutil.disk_usage\<close> raises), and whether each
  file operation succeeds.
\<close>

record io =
  io_request_id :: string
  io_timestamp :: string
  io_before :: probe
  io_after :: probe
  io_disk_percent :: "real option"
  io_read_ok :: bool
  io_write_ok :: bool
  io_copy_ok :: bool
  io_truncate_ok :: bool

record tracker =
  storage_path :: string
  metrics :: "inference_record list"
  hallucination_detector :: embedder
  drift_detector :: DriftDetector
  tokenizer :: "string \<Rightarrow> nat"
  disk :: "string \<rightharpoonup> line list"

definition path_join :: "string \<Rightarrow> string \<Rightarrow> string" where
  "path_join a b =
     (if a = [] then b else if last a = CHR ''/'' then a @ b else a @ ''/'' @ b)"

definition metrics_file :: "tracker \<Rightarrow> string" where
  "metrics_file self = path_join (storage_path self) ''metrics.jsonl''"

text \<open>
  The loop of \<open>_load_metrics\<close>: a line that does not parse raises, which ends the loop
  and keeps the records read so far.
\<close>

fun load_lines :: "line list \<Rightarrow> inference_record list \<Rightarrow> inference_record list" where
  "load_lines [] acc = acc"
| "load_lines (BlankLine # ls) acc = load_lines ls acc"
| "load_lines (RecordLine r # ls) acc = load_lines ls (acc @ [r])"
| "load_lines (BadLine # ls) acc = acc"

definition load_metrics :: "io \<Rightarrow> tracker \<Rightarrow> tracker" where
  "load_metrics env self =
     (case disk self (metrics_file self) of
        None \<Rightarrow> self\<lparr>metrics := []\<rparr>
      | Some ls \<Rightarrow>
          if io_read_ok env then self\<lparr>metrics := load_lines ls []\<rparr> else self\<lparr>metrics := []\<rparr>)"

text \<open>The data frame is the list of its rows.\<close>

definition get_metrics_dataframe :: "io \<Rightarrow> tracker \<Rightarrow> inference_record list \<times> tracker" where
  "get_metrics_dataframe env self = (let self' = load_metrics env self in (metrics self', self'))"

definition write_to_disk :: "io \<Rightarrow> tracker \<Rightarrow> inference_record \<Rightarrow> tracker" where
  "write_to_disk env self record =
     (if io_write_ok env then
        self\<lparr>disk := (disk self)(metrics_file self \<mapsto>
           (case disk self (metrics_file self) of None \<Rightarrow> [] | Some ls \<Rightarrow> ls) @ [RecordLine record])\<rparr>
      else self)"

text \<open>
  \<open>reset_metrics\<close>: the whole body is inside \<open>try\<close>, so the result is always a boolean.
  A copy that fails leaves the disk as it was.
\<close>

definition reset_metrics :: "io \<Rightarrow> tracker \<Rightarrow> (error + bool) \<times> tracker" where
  "reset_metrics env self =
     (let file = metrics_file self;
          backup_file = file @ ''.bak.'' @ io_timestamp env;
          copied =
            (case disk self file of
               None \<Rightarrow> Inr (disk self)
             | Some ls \<Rightarrow> if io_copy_ok env then Inr ((disk self)(backup_file \<mapsto> ls)) else Inl IOError)
      in case copied of
           Inl e \<Rightarrow> (Inr False, self)
         | Inr disk1 \<Rightarrow>
             if io_truncate_ok env
             then (Inr True, self\<lparr>disk := disk1(file \<mapsto> []), metrics := []\<rparr>)
             else (Inr False, self\<lparr>disk := disk1\<rparr>))"

text \<open>
  \<open>len(_tokenizer.encode(text, add_special_tokens=False))\<close>; the tokenizer rejects a
  value that is not a string.
\<close>

definition token_len :: "(string \<Rightarrow> nat) \<Rightarrow> pyval \<Rightarrow> error + int" where
  "token_len tok v = (case v of PStr s \<Rightarrow> Inr (int (tok s)) | _ \<Rightarrow> Inl TypeError)"

definition log_inference ::
  "io \<Rightarrow> tracker \<Rightarrow> pyval \<Rightarrow> pyval \<Rightarrow> string \<Rightarrow> int \<Rightarrow> int option \<Rightarrow> int option \<Rightarrow> pyval
     \<Rightarrow> (error + inference_record) \<times> tracker" where
  "log_inference env self prompt completion model rt tokens_in tokens_out status =
     (let score = score_hallucination (hallucination_detector self) prompt completion;
          (drift, detector) = detect_drift (drift_detector self) score rt tokens_out;
          self1 = self\<lparr>drift_detector := detector\<rparr>
      in case drift of
           Inl e \<Rightarrow> (Inl e, self1)
         | Inr drift_detected \<Rightarrow>
            (case (case tokens_in of Some n \<Rightarrow> Inr n | None \<Rightarrow> token_len (tokenizer self) prompt) of
               Inl e \<Rightarrow> (Inl e, self1)
             | Inr in_tokens \<Rightarrow>
                (case (case tokens_out of Some n \<Rightarrow> Inr n
                       | None \<Rightarrow> token_len (tokenizer self) completion) of
                   Inl e \<Rightarrow> (Inl e, self1)
                 | Inr out_tokens \<Rightarrow>
                    (let record =
                           \<lparr>rec_request_id = io_request_id env,
                            rec_timestamp = io_timestamp env,
                            rec_model = model,
                            rec_tokens_in = in_tokens,
                            rec_tokens_out = out_tokens,
                            rec_hallucination_score = score,
                            rec_drift_detected = drift_detected,
                            rec_response_time_ms = rt,
                            rec_status = status,
                            rec_fact_consistency =
                              (if score < 0.8
                               then Some (get_fact_consistency (hallucination_detector self)
                                            prompt completion)
                               else None),
                            rec_cpu_time_sec =
                              Some ((cpu_user (io_after env) + cpu_system (io_after env))
                                    - (cpu_user (io_before env) + cpu_system (io_before env))),
                            rec_memory_delta_bytes = Some (rss (io_after env) - rss (io_before env)),
                            rec_disk_percent = io_disk_percent env\<rparr>
                     in (Inr record, write_to_disk env self1 record)))))"

text \<open>
  A pandas mean: the missing values are skipped, and the mean of no value is \<open>NaN\<close>,
  which division and \<open>float\<close> keep.
\<close>

datatype pyfloat = NaN | Float real

definition series_mean :: "real option list \<Rightarrow> pyfloat" where
  "series_mean xs = (if present xs = [] then NaN else Float (mean (present xs)))"


text \<open>\<open>Series.unique()\<close>: the distinct values in order of first appearance.\<close>

fun unique :: "'a list \<Rightarrow> 'a list" where
  "unique [] = []"
| "unique (x # xs) = x # filter (\<lambda>y. y \<noteq> x) (unique xs)"



text \<open>
  The two columns filled in for a frame in which no row has the key
  (\<open>'cpu_time_sec' not in df.columns\<close>).
\<close>

definition fill_resource_columns :: "inference_record list \<Rightarrow> inference_record list" where
  "fill_resource_columns df =
     (let df1 = (if list_all (\<lambda>r. rec_cpu_time_sec r = None) df
                 then map (\<lambda>r. r\<lparr>rec_cpu_time_sec := Some 0\<rparr>) df else df)
      in if list_all (\<lambda>r. rec_memory_delta_bytes r = None) df1
         then map (\<lambda>r. r\<lparr>rec_memory_delta_bytes := Some 0\<rparr>) df1 else df1)"






section \<open>The audit middleware (audit_core/integrations/middleware.py)\<close>

text \<open>
  \<open>json_body\<close> is what \<open>await request.json()\<close> gives, \<open>None\<close> when it raises (a missing
  or malformed body). \<open>body_iterator\<close> is the chunks of the response stream, \<open>None\<close> when
  reading the stream raises.
\<close>

record request =
  url_path :: string
  http_method :: string
  json_body :: "pyval option"

record response =
  status_code :: int
  body_iterator :: "string list option"
  headers :: "(string \<times> string) list"
  media_type :: "string option"

text \<open>The keyword arguments of the call \<open>metrics_tracker.log_inference(...)\<close>.\<close>

record log_call =
  lc_model :: pyval
  lc_prompt :: pyval
  lc_completion :: pyval
  lc_response_time_ms :: int
  lc_status :: int

text \<open>
  The middleware is built over an injected tracker: \<open>'st\<close> is the state of the tracker
  and \<open>mw_log_inference\<close> its \<open>log_inference\<close>, which may raise.
\<close>

record 'st AuditMiddleware =
  mw_log_inference :: "log_call \<Rightarrow> 'st \<Rightarrow> error option \<times> 'st"
  audit_path_filter :: "string option"
  extract_model_name :: "pyval \<Rightarrow> error + pyval"
  extract_prompt :: "pyval \<Rightarrow> error + pyval"
  extract_completion :: "pyval \<Rightarrow> pyval \<Rightarrow> error + pyval"
  mw_hallucination_detector :: embedder

text \<open>The default extractors: \<open>x.get(...)\<close> raises on a value that is not a dictionary.\<close>

definition default_extract_model_name :: "pyval \<Rightarrow> error + pyval" where
  "default_extract_model_name x =
     (case x of PDict d \<Rightarrow> Inr (dict_get d ''model'' (PStr ''default_model''))
      | _ \<Rightarrow> Inl AttributeError)"

definition default_extract_prompt :: "pyval \<Rightarrow> error + pyval" where
  "default_extract_prompt x =
     (case x of PDict d \<Rightarrow> Inr (dict_get d ''prompt'' (PStr [])) | _ \<Rightarrow> Inl AttributeError)"

definition default_extract_completion :: "pyval \<Rightarrow> pyval \<Rightarrow> error + pyval" where
  "default_extract_completion req resp =
     (case resp of
        PDict d \<Rightarrow> Inr (dict_get d ''response'' (dict_get d ''completion'' (PStr [])))
      | _ \<Rightarrow> Inl AttributeError)"

definition AuditMiddleware_init ::
  "(log_call \<Rightarrow> 'st \<Rightarrow> error option \<times> 'st) \<Rightarrow> string option
     \<Rightarrow> (pyval \<Rightarrow> error + pyval) option \<Rightarrow> (pyval \<Rightarrow> error + pyval) option
     \<Rightarrow> (pyval \<Rightarrow> pyval \<Rightarrow> error + pyval) option \<Rightarrow> embedder \<Rightarrow> 'st AuditMiddleware" where
  "AuditMiddleware_init tracker_log path_filter model_f prompt_f completion_f emb =
     \<lparr>mw_log_inference = tracker_log,
      audit_path_filter = path_filter,
      extract_model_name = (case model_f of Some f \<Rightarrow> f | None \<Rightarrow> default_extract_model_name),
      extract_prompt = (case prompt_f of Some f \<Rightarrow> f | None \<Rightarrow> default_extract_prompt),
      extract_completion =
        (case completion_f of Some f \<Rightarrow> f | None \<Rightarrow> default_extract_completion),
      mw_hallucination_detector = emb\<rparr>"

definition should_audit_path :: "'st AuditMiddleware \<Rightarrow> string \<Rightarrow> bool" where
  "should_audit_path self path =
     (case audit_path_filter self of
        None \<Rightarrow> True
      | Some f \<Rightarrow> if f = [] then True else str_in f path)"

text \<open>Python truthiness, for \<open>if prompt and completion\<close>.\<close>

fun truthy :: "pyval \<Rightarrow> bool" where
  "truthy PNone = False"
| "truthy (PBool b) = b"
| "truthy (PInt i) = (i \<noteq> 0)"
| "truthy (PFloat x) = (x \<noteq> 0)"
| "truthy (PStr s) = (s \<noteq> [])"
| "truthy (PList xs) = (xs \<noteq> [])"
| "truthy (PDict d) = (d \<noteq> [])"

text \<open>
  What a dispatch reads from outside the program: the JSON parser (\<open>None\<close> when
  \<open>json.loads\<close> raises), the lossy UTF-8 decoder, the elapsed time in milliseconds that
  the clock gives, and the downstream handler \<open>call_next\<close>, which may raise.
\<close>

record http_env =
  json_loads :: "string \<Rightarrow> pyval option"
  decode_utf8 :: "string \<Rightarrow> string"
  elapsed_ms :: int
  call_next :: "request \<Rightarrow> error + response"

text \<open>
  \<open>_log_audit_info\<close> returns nothing and raises nothing: after the first check the whole
  body is inside \<open>try\<close>. Its effect is the state of the tracker. The score it computes
  is not used.
\<close>

definition log_audit_info ::
  "'st AuditMiddleware \<Rightarrow> http_env \<Rightarrow> pyval \<Rightarrow> string \<Rightarrow> int \<Rightarrow> 'st \<Rightarrow> 'st" where
  "log_audit_info self env request_body response_body response_status st =
     (if response_body = [] \<or> response_status \<ge> 400 then st
      else
        case extract_model_name self request_body of
          Inl e \<Rightarrow> st
        | Inr model_name \<Rightarrow>
           (case extract_prompt self request_body of
              Inl e \<Rightarrow> st
            | Inr prompt \<Rightarrow>
               (let response_json =
                      (case json_loads env response_body of
                         Some v \<Rightarrow> v
                       | None \<Rightarrow> PDict [(''response'', PStr (decode_utf8 env response_body))])
                in case extract_completion self request_body response_json of
                     Inl e \<Rightarrow> st
                   | Inr completion \<Rightarrow>
                      (let score =
                             (if truthy prompt \<and> truthy completion
                              then score_hallucination (mw_hallucination_detector self) prompt completion
                              else 0.0)
                       in snd (mw_log_inference self
                                 \<lparr>lc_model = model_name, lc_prompt = prompt,
                                  lc_completion = completion,
                                  lc_response_time_ms = elapsed_ms env,
                                  lc_status = response_status\<rparr> st)))))"

text \<open>
  \<open>dict(response.headers)\<close>: one entry for each header name, in order of first
  appearance, with the first value of that name. What the constructor of the new response
  adds to these headers by itself is not modelled.
\<close>

fun dict_headers :: "(string \<times> string) list \<Rightarrow> (string \<times> string) list" where
  "dict_headers [] = []"
| "dict_headers ((k, v) # hs) = (k, v) # filter (\<lambda>h. fst h \<noteq> k) (dict_headers hs)"

text \<open>
  \<open>dispatch\<close> returns the response for the caller, or the exception it raises, and the
  state of the tracker. In the handler of the outer \<open>try\<close>, \<open>response\<close> is still
  \<open>None\<close> when reading the request body or the first \<open>call_next\<close> raised, and the handler
  calls \<open>call_next\<close> itself.
\<close>

definition dispatch ::
  "'st AuditMiddleware \<Rightarrow> http_env \<Rightarrow> request \<Rightarrow> 'st \<Rightarrow> (error + response) \<times> 'st" where
  "dispatch self env req st =
     (if \<not> should_audit_path self (url_path req) then (call_next env req, st)
      else
        case (if http_method req \<noteq> ''GET'' then json_body req else Some (PDict [])) of
          None \<Rightarrow> (call_next env req, st)
        | Some request_body \<Rightarrow>
           (case call_next env req of
              Inl e \<Rightarrow> (call_next env req, st)
            | Inr resp \<Rightarrow>
               if 200 \<le> status_code resp \<and> status_code resp < 300 then
                 (case body_iterator resp of
                    None \<Rightarrow> (Inr resp, st)
                  | Some chunks \<Rightarrow>
                     (let response_body = concat chunks;
                          rebuilt = resp\<lparr>body_iterator := Some [response_body],
                                         headers := dict_headers (headers resp)\<rparr>
                      in (Inr rebuilt,
                          log_audit_info self env request_body response_body (status_code rebuilt) st)))
               else (Inr resp, log_audit_info self env request_body [] (status_code resp) st)))"

text \<open>A tracker that only keeps the calls it receives.\<close>

definition recording_log_inference :: "log_call \<Rightarrow> log_call list \<Rightarrow> error option \<times> log_call list" where
  "recording_log_inference c calls = (None, calls @ [c])"

section \<open>The application's middleware (api/main.py)\<close>

text \<open>\<open>x.get(key, default)\<close> on any value: only a dictionary has the method.\<close>

definition py_get :: "pyval \<Rightarrow> string \<Rightarrow> pyval \<Rightarrow> error + pyval" where
  "py_get x key dflt = (case x of PDict d \<Rightarrow> Inr (dict_get d key dflt) | _ \<Rightarrow> Inl AttributeError)"

text \<open>
  The middleware as \<open>app.add_middleware\<close> configures it: the path filter \<open>/v1/infer\<close> and
  three extractors of its own, the one for the completion reading the key \<open>completion\<close>
  only. The first argument is \<open>settings.DEFAULT_MODEL\<close>.
\<close>

definition api_middleware ::
  "string \<Rightarrow> (log_call \<Rightarrow> 'st \<Rightarrow> error option \<times> 'st) \<Rightarrow> embedder \<Rightarrow> 'st AuditMiddleware" where
  "api_middleware default_model tracker_log emb =
     AuditMiddleware_init tracker_log (Some ''/v1/infer'')
       (Some (\<lambda>x. py_get x ''model'' (PStr default_model)))
       (Some (\<lambda>x. py_get x ''prompt'' (PStr [])))
       (Some (\<lambda>req resp. py_get resp ''completion'' (PStr [])))
       emb"

section \<open>Example values\<close>

text \<open>An environment in which every file operation succeeds and nothing is measured.\<close>

definition io_ok :: io where
  "io_ok =
     \<lparr>io_request_id = ''req_1700000000000'', io_timestamp = ''20250101_000000'',
      io_before = \<lparr>cpu_user = 0, cpu_system = 0, rss = 0\<rparr>,
      io_after = \<lparr>cpu_user = 0, cpu_system = 0, rss = 0\<rparr>,
      io_disk_percent = None, io_read_ok = True, io_write_ok = True, io_copy_ok = True,
      io_truncate_ok = True\<rparr>"

text \<open>
  A tracker as \<open>__init__\<close> leaves it on the given disk: the default storage path, the
  default window of 10 without reference data, an embedder that always fails and a
  tokenizer that counts characters.
\<close>

definition tracker_on :: "(string \<rightharpoonup> line list) \<Rightarrow> tracker" where
  "tracker_on d =
     \<lparr>storage_path = ''data/metrics'', metrics = [], hallucination_detector = (\<lambda>p c. None),
      drift_detector = DriftDetector_init None 10, tokenizer = length, disk = d\<rparr>"


text \<open>
  A middleware with the default extractors and no path filter over the tracker that keeps
  its calls, and an environment in which the handler answers with the given response and
  no body parses as JSON.
\<close>

definition recording_middleware :: "log_call list AuditMiddleware" where
  "recording_middleware =
     AuditMiddleware_init recording_log_inference None None None None (\<lambda>p c. None)"

definition plain_env :: "response \<Rightarrow> http_env" where
  "plain_env resp =
     \<lparr>json_loads = (\<lambda>s. None), decode_utf8 = (\<lambda>s. s), elapsed_ms = 12,
      call_next = (\<lambda>r. Inr resp)\<rparr>"

text \<open>An environment in which every body parses as JSON to the given value.\<close>

definition json_env :: "pyval \<Rightarrow> response \<Rightarrow> http_env" where
  "json_env v resp =
     \<lparr>json_loads = (\<lambda>s. Some v), decode_utf8 = (\<lambda>s. s), elapsed_ms = 12,
      call_next = (\<lambda>r. Inr resp)\<rparr>"

section \<open>Properties of the drift detector\<close>

lemma detect_drift_window_size [simp]:
  "window_size (snd (detect_drift self hs rt tc)) = window_size self"
  by (simp add: detect_drift_def Let_def)

lemma detect_drift_reference_stats [simp]:
  "reference_stats (snd (detect_drift self hs rt tc)) = reference_stats self"
  by (simp add: detect_drift_def Let_def)

lemma detect_drift_window:
  "current_window (snd (detect_drift self hs rt tc)) =
     (let appended = current_window self
            @ [\<lparr>hallucination_score = hs, response_time_ms = rt, token_count = tc\<rparr>]
      in if int (length appended) > window_size self then tl appended else appended)"
  by (simp add: detect_drift_def Let_def)

lemma observe_all_window_size [simp]: "window_size (observe_all self ms) = window_size self"
  by (induction ms arbitrary: self) simp_all

lemma observe_all_reference_stats [simp]:
  "reference_stats (observe_all self ms) = reference_stats self"
  by (induction ms arbitrary: self) simp_all

lemma observe_all_append:
  "observe_all self (ms @ [m]) =
     snd (detect_drift (observe_all self ms) (hallucination_score m) (response_time_ms m) (token_count m))"
  by (induction ms arbitrary: self) simp_all

lemma observe_all_window:
  assumes "0 \<le> window_size self" and "current_window self = []"
  shows "current_window (observe_all self ms) = drop (length ms - nat (window_size self)) ms"
proof (induction ms rule: rev_induct)
  case Nil
  then show ?case using assms by simp
next
  case (snoc m ms)
  have m: "\<lparr>hallucination_score = hallucination_score m, response_time_ms = response_time_ms m,
            token_count = token_count m\<rparr> = m"
    by simp
  let ?w = "nat (window_size self)"
  let ?old = "drop (length ms - ?w) ms"
  have len: "length ?old = min (length ms) ?w" by auto
  show ?case
  proof (cases "length ms < ?w")
    case True
    then have "\<not> window_size self < 1 + int (length ms)" by linarith
    with True show ?thesis
      using snoc assms by (simp add: observe_all_append detect_drift_window m Let_def)
  next
    case False
    then have ge: "?w \<le> length ms" by simp
    have over: "int (length (?old @ [m])) > window_size self"
      using ge assms by simp
    have "tl (?old @ [m]) = drop (Suc (length ms) - ?w) (ms @ [m])"
    proof (cases "?old = []")
      case True
      then have "?w = 0" using ge by simp
      then show ?thesis using True by simp
    next
      case False
      then have pos: "0 < ?w" by (cases "?w") auto
      from False have "tl (?old @ [m]) = tl ?old @ [m]" by simp
      also have "tl ?old = drop (Suc (length ms - ?w)) ms"
        by (simp add: drop_Suc tl_drop)
      also have "Suc (length ms - ?w) = Suc (length ms) - ?w"
        using ge by simp
      finally show ?thesis using ge pos by simp
    qed
    then show ?thesis
      using snoc over by (simp add: observe_all_append detect_drift_window m Let_def)
  qed
qed

lemma tl_snoc_Nil: "tl (xs @ [m]) = [] \<longleftrightarrow> xs = []"
  by (cases xs) simp_all

lemma detect_drift_result:
  "fst (detect_drift self hs rt tc) =
     (let window = current_window (snd (detect_drift self hs rt tc))
      in if int (length window) < window_size self \<or> reference_stats self = [] then Inr False
         else if window = [] then Inl KeyError
         else Inr (is_metric_drifting (mean (map hallucination_score window))
                     (dict_get (reference_stats self) ''hallucination_score_mean'' 0) 0.2 False
                   \<or> is_metric_drifting (mean (map (\<lambda>m. real_of_int (response_time_ms m)) window))
                     (dict_get (reference_stats self) ''response_time_ms_mean'' 0) 0.5 True))"
  by (auto simp: detect_drift_def Let_def dict_get_def tl_snoc_Nil)

lemma detect_drift_window_token_free:
  "map hallucination_score (current_window (snd (detect_drift self hs rt tc'))) =
     map hallucination_score (current_window (snd (detect_drift self hs rt tc)))"
  "map response_time_ms (current_window (snd (detect_drift self hs rt tc'))) =
     map response_time_ms (current_window (snd (detect_drift self hs rt tc)))"
  by (simp_all add: detect_drift_window Let_def map_tl)

text \<open>
  C1, as amended. Once the window that \<open>detect_drift\<close> leaves holds \<open>window_size\<close>
  samples (a positive number) and the reference statistics are not empty, the result is the
  disjunction of exactly two tests: the hallucination score drifts iff its reference mean
  is not 0 and |window mean - reference mean| / reference mean > 0.2, the response time
  drifts iff its reference mean is not 0 and (window mean - reference mean) / reference
  mean > 0.5. The token count does not enter the result: any other token count gives the
  same answer.
\<close>

theorem detect_drift_full_window:
  assumes "window = current_window (snd (detect_drift self hs rt tc))"
      and "0 < window_size self"
      and "window_size self \<le> int (length window)"
      and "reference_stats self \<noteq> []"
  shows "fst (detect_drift self hs rt tc) =
           Inr ((dict_get (reference_stats self) ''hallucination_score_mean'' 0 \<noteq> 0
                 \<and> \<bar>mean (map hallucination_score window)
                      - dict_get (reference_stats self) ''hallucination_score_mean'' 0\<bar>
                     / dict_get (reference_stats self) ''hallucination_score_mean'' 0 > 0.2)
              \<or> (dict_get (reference_stats self) ''response_time_ms_mean'' 0 \<noteq> 0
                 \<and> (mean (map (\<lambda>m. real_of_int (response_time_ms m)) window)
                      - dict_get (reference_stats self) ''response_time_ms_mean'' 0)
                     / dict_get (reference_stats self) ''response_time_ms_mean'' 0 > 0.5))
       \<and> fst (detect_drift self hs rt tc') = fst (detect_drift self hs rt tc)"
proof -
  let ?w = "current_window (snd (detect_drift self hs rt tc))"
  let ?w' = "current_window (snd (detect_drift self hs rt tc'))"
  have ne: "window \<noteq> []" using assms(2,3) by auto
  have hs: "map hallucination_score ?w' = map hallucination_score ?w"
    and rt: "map response_time_ms ?w' = map response_time_ms ?w"
    by (rule detect_drift_window_token_free)+
  have len: "length ?w' = length ?w"
    using arg_cong [OF hs, of length] by simp
  then have nil: "?w' = [] \<longleftrightarrow> ?w = []" by (metis length_0_conv)
  have rt': "map (\<lambda>m. real_of_int (response_time_ms m)) ?w'
             = map (\<lambda>m. real_of_int (response_time_ms m)) ?w"
    using arg_cong [OF rt, of "map real_of_int"] by (simp add: comp_def)
  have "fst (detect_drift self hs rt tc') = fst (detect_drift self hs rt tc)"
    unfolding detect_drift_result [of self hs rt tc'] detect_drift_result [of self hs rt tc] Let_def
    by (simp only: hs rt' len nil)
  moreover have "fst (detect_drift self hs rt tc) =
           Inr ((dict_get (reference_stats self) ''hallucination_score_mean'' 0 \<noteq> 0
                 \<and> \<bar>mean (map hallucination_score window)
                      - dict_get (reference_stats self) ''hallucination_score_mean'' 0\<bar>
                     / dict_get (reference_stats self) ''hallucination_score_mean'' 0 > 0.2)
              \<or> (dict_get (reference_stats self) ''response_time_ms_mean'' 0 \<noteq> 0
                 \<and> (mean (map (\<lambda>m. real_of_int (response_time_ms m)) window)
                      - dict_get (reference_stats self) ''response_time_ms_mean'' 0)
                     / dict_get (reference_stats self) ''response_time_ms_mean'' 0 > 0.5))"
    unfolding detect_drift_result [of self hs rt tc] Let_def
    using assms ne by (simp add: is_metric_drifting_def)
  ultimately show ?thesis by simp
qed

text \<open>
  A window of two samples at the reference values and a third sample with score 0.9: the
  window mean 0.5 is away from the reference 0.1 by more than 20 percent, so drift is
  reported.
\<close>

theorem detect_drift_full_window_witness:
  "fst (detect_drift
          \<lparr>window_size = 2,
           reference_stats = [(''hallucination_score_mean'', 0.1), (''response_time_ms_mean'', 100)],
           current_window = [\<lparr>hallucination_score = 0.1, response_time_ms = 100, token_count = None\<rparr>,
                             \<lparr>hallucination_score = 0.1, response_time_ms = 100, token_count = None\<rparr>]\<rparr>
          0.9 100 None) = Inr True"
  using detect_drift_full_window [OF refl, where self =
         "\<lparr>window_size = 2,
           reference_stats = [(''hallucination_score_mean'', 0.1), (''response_time_ms_mean'', 100)],
           current_window = [\<lparr>hallucination_score = 0.1, response_time_ms = 100, token_count = None\<rparr>,
                             \<lparr>hallucination_score = 0.1, response_time_ms = 100, token_count = None\<rparr>]\<rparr>"
         and hs = "0.9" and rt = 100 and tc = None]
  by (simp add: detect_drift_window dict_get_def mean_def)

text \<open>
  C1 as stated fails: with a window of one sample whose token count 1000 is a hundred
  times the reference mean 10, and the other two metrics at their reference values, the
  disjunction over all the evaluated metrics holds, and \<open>detect_drift\<close> returns False.
\<close>

theorem detect_drift_token_count_counterexample:
  "fst (detect_drift
          \<lparr>window_size = 1,
           reference_stats = [(''hallucination_score_mean'', 0.1), (''response_time_ms_mean'', 100),
                              (''token_count_mean'', 10)],
           current_window = []\<rparr> 0.1 100 (Some 1000)) = Inr False
   \<and> drift_over_evaluated_metrics
        [(''hallucination_score_mean'', 0.1), (''response_time_ms_mean'', 100), (''token_count_mean'', 10)]
        [\<lparr>hallucination_score = 0.1, response_time_ms = 100, token_count = Some 1000\<rparr>]"
  by (simp add: detect_drift_def drift_over_evaluated_metrics_def is_metric_drifting_def
      dict_get_def mean_def present_def Let_def)

text \<open>
  C6. A detector built with capacity \<open>w \<ge> 0\<close> holds, after any run of \<open>detect_drift\<close>
  calls, at most \<open>w\<close> samples, and they are the last \<open>w\<close> observations in order: the
  oldest is evicted first. After \<open>w + 1\<close> observations the window is all of them but the
  first.
\<close>

theorem drift_window_bounded_fifo:
  assumes "0 \<le> w"
  shows "int (length (current_window (observe_all (DriftDetector_init ref w) ms))) \<le> w
       \<and> current_window (observe_all (DriftDetector_init ref w) ms) = drop (length ms - nat w) ms
       \<and> (length ms = nat w + 1 \<longrightarrow>
            current_window (observe_all (DriftDetector_init ref w) ms) = tl ms)"
proof -
  have init: "window_size (DriftDetector_init ref w) = w"
    "current_window (DriftDetector_init ref w) = []"
    by (simp_all add: DriftDetector_init_def)
  have win: "current_window (observe_all (DriftDetector_init ref w) ms) = drop (length ms - nat w) ms"
    using observe_all_window [of "DriftDetector_init ref w" ms] assms init by simp
  have "length (drop (length ms - nat w) ms) \<le> nat w" by simp
  then have "int (length (drop (length ms - nat w) ms)) \<le> w" using assms by linarith
  moreover have "length ms = nat w + 1 \<longrightarrow> drop (length ms - nat w) ms = tl ms"
    by (simp add: drop_Suc)
  ultimately show ?thesis using win by simp
qed

text \<open>Capacity 2 and three observations: the first one is gone, the other two remain.\<close>

theorem drift_window_bounded_fifo_witness:
  "(0::int) \<le> 2
   \<and> current_window (observe_all (DriftDetector_init None 2)
        [\<lparr>hallucination_score = 0.1, response_time_ms = 100, token_count = None\<rparr>,
         \<lparr>hallucination_score = 0.2, response_time_ms = 200, token_count = None\<rparr>,
         \<lparr>hallucination_score = 0.3, response_time_ms = 300, token_count = Some 7\<rparr>])
     = [\<lparr>hallucination_score = 0.2, response_time_ms = 200, token_count = None\<rparr>,
        \<lparr>hallucination_score = 0.3, response_time_ms = 300, token_count = Some 7\<rparr>]"
  using drift_window_bounded_fifo [of 2 None
        "[\<lparr>hallucination_score = 0.1, response_time_ms = 100, token_count = None\<rparr>,
         \<lparr>hallucination_score = 0.2, response_time_ms = 200, token_count = None\<rparr>,
         \<lparr>hallucination_score = 0.3, response_time_ms = 300, token_count = Some 7\<rparr>]"]
  by simp

text \<open>
  C7. On a detector that has observed the samples \<open>ms\<close>, a call that brings the number
  of observations to less than the capacity, or a call without reference statistics,
  returns False whatever the values; and the window it leaves is the old window with the
  new sample appended, less the oldest sample when that exceeds the capacity.
\<close>

theorem detect_drift_false_until_full:
  assumes "self = observe_all (DriftDetector_init ref w) ms"
      and "int (length ms) + 1 < w \<or> reference_stats self = []"
  shows "fst (detect_drift self hs rt tc) = Inr False
       \<and> current_window (snd (detect_drift self hs rt tc)) =
           (let appended = current_window self
                  @ [\<lparr>hallucination_score = hs, response_time_ms = rt, token_count = tc\<rparr>]
            in if int (length appended) > w then tl appended else appended)"
proof -
  have ws: "window_size self = w"
    using assms(1) by (simp add: DriftDetector_init_def)
  have "fst (detect_drift self hs rt tc) = Inr False"
  proof (cases "reference_stats self = []")
    case True
    then show ?thesis by (simp add: detect_drift_def Let_def)
  next
    case False
    with assms(2) have few: "int (length ms) + 1 < w" by simp
    then have "0 \<le> w" by simp
    then have "current_window self = drop (length ms - nat w) ms"
      using observe_all_window [of "DriftDetector_init ref w" ms] assms(1)
      by (simp add: DriftDetector_init_def)
    also have "\<dots> = ms" using few by simp
    finally have "current_window self = ms" .
    then show ?thesis using few ws by (simp add: detect_drift_def Let_def)
  qed
  then show ?thesis using ws by (simp add: detect_drift_window)
qed

text \<open>
  Capacity 3, reference mean 0.1, one sample observed: the second sample, far from the
  reference, is appended and no drift is reported.
\<close>

theorem detect_drift_false_until_full_witness:
  "fst (detect_drift (observe_all (DriftDetector_init (Some [(''hallucination_score_mean'', 0.1)]) 3)
          [\<lparr>hallucination_score = 0.9, response_time_ms = 100, token_count = None\<rparr>])
        0.9 5000 None) = Inr False
   \<and> current_window (snd (detect_drift (observe_all (DriftDetector_init (Some [(''hallucination_score_mean'', 0.1)]) 3)
          [\<lparr>hallucination_score = 0.9, response_time_ms = 100, token_count = None\<rparr>])
        0.9 5000 None)) =
       [\<lparr>hallucination_score = 0.9, response_time_ms = 100, token_count = None\<rparr>,
        \<lparr>hallucination_score = 0.9, response_time_ms = 5000, token_count = None\<rparr>]"
  using detect_drift_false_until_full [OF refl, where ms = "[\<lparr>hallucination_score = 0.9, response_time_ms = 100, token_count = None\<rparr>]"
        and w = 3 and ref = "Some [(''hallucination_score_mean'', 0.1)]" and hs = "0.9" and rt = 5000 and tc = None]
  by (simp add: detect_drift_window DriftDetector_init_def)

section \<open>Properties of the hallucination score\<close>

lemma fold_hesitation:
  "fold (\<lambda>indicator score. if str_in indicator c then score + 0.1 else score) inds (acc::real)
     = acc + 0.1 * real (length (filter (\<lambda>indicator. str_in indicator c) inds))"
  by (induction inds arbitrary: acc) (simp_all add: algebra_simps)


lemma score_example: "score_hallucination (\<lambda>p c. None) (PStr ''Hi'') (PStr ''hi'') = 0.3"
proof -
  have l: "lower ''Hi'' = ''hi''" "lower ''hi'' = ''hi''" by code_simp+
  have w: "findall_words [] ''hi'' = [''hi'']" by code_simp
  have f: "length (filter (\<lambda>indicator. str_in indicator ''hi'') hallucination_indicators) = 0"
    by code_simp
  have "hesitation_score ''hi'' = min (0 + 0.1 * real (0::nat)) 0.5"
    by (simp only: hesitation_score_def fold_hesitation f)
  then have h: "hesitation_score ''hi'' = 0" by simp
  have o: "overlap_score ''hi'' ''hi'' = 0"
    unfolding overlap_score_def w by simp
  show ?thesis
    by (simp add: score_hallucination_def heuristic_score_def l h o clip_def)
qed

text \<open>
  C2, as amended. The hesitation score of a completion is 0.1 times the number of
  indicators of the lexicon that occur in the case-folded completion, capped at 0.5: an
  indicator counts once however often it occurs. The score lies between 0 and 0.5.
\<close>

theorem hesitation_score_per_indicator:
  "hesitation_score (lower completion) =
     min (0.1 * real (length (filter (\<lambda>indicator. str_in indicator (lower completion))
                                hallucination_indicators))) 0.5
   \<and> 0 \<le> hesitation_score (lower completion) \<and> hesitation_score (lower completion) \<le> 0.5"
  by (simp add: hesitation_score_def fold_hesitation)

text \<open>
  C2 as stated fails: in "Perhaps, perhaps" the indicator "perhaps" occurs twice, so 0.1
  per occurrence is 0.2, and the source gives 0.1.
\<close>

theorem hesitation_repeated_phrase_counterexample:
  "hesitation_score (lower ''Perhaps, perhaps'') = 0.1
   \<and> hesitation_per_occurrence (lower ''Perhaps, perhaps'') = 0.2"
proof -
  have l: "lower ''Perhaps, perhaps'' = ''perhaps, perhaps''"
    by code_simp
  have f: "length (filter (\<lambda>indicator. str_in indicator ''perhaps, perhaps'')
             hallucination_indicators) = 1"
    by code_simp
  have c: "sum_list (map (\<lambda>indicator. count_occurrences indicator ''perhaps, perhaps'')
             hallucination_indicators) = 2"
    by code_simp
  have "hesitation_score ''perhaps, perhaps'' = min (0 + 0.1 * real (1::nat)) 0.5"
    by (simp only: hesitation_score_def fold_hesitation f)
  moreover have "hesitation_per_occurrence ''perhaps, perhaps'' = min (0.1 * real (2::nat)) 0.5"
    by (simp only: hesitation_per_occurrence_def c)
  ultimately show ?thesis
    unfolding l by simp
qed



section \<open>Properties of the metrics tracker\<close>

text \<open>
  C8. A record that \<open>log_inference\<close> returns has the key \<open>fact_consistency\<close> iff its
  hallucination score is below 0.8, and the value is then 1 minus that score, which is
  the score of the prompt and completion of the call.
\<close>

theorem log_inference_fact_consistency:
  assumes "fst (log_inference env self prompt completion model rt tokens_in tokens_out status) = Inr r"
  shows "(rec_fact_consistency r \<noteq> None \<longleftrightarrow> rec_hallucination_score r < 0.8)
       \<and> (\<forall>fc. rec_fact_consistency r = Some fc \<longrightarrow> fc = 1 - rec_hallucination_score r)
       \<and> rec_hallucination_score r = score_hallucination (hallucination_detector self) prompt completion"
  using assms
  by (auto simp: log_inference_def Let_def get_fact_consistency_def
      split: prod.splits sum.splits option.splits if_splits)

text \<open>
  The prompt "Hi" and the completion "hi" with a failing embedder score 0.3, so the
  record carries the consistency 0.7.
\<close>

theorem log_inference_fact_consistency_witness:
  "fst (log_inference io_ok (tracker_on Map.empty) (PStr ''Hi'') (PStr ''hi'') ''m'' 5
          (Some 1) (Some 1) (PInt 200))
     = Inr \<lparr>rec_request_id = ''req_1700000000000'', rec_timestamp = ''20250101_000000'',
            rec_model = ''m'', rec_tokens_in = 1, rec_tokens_out = 1,
            rec_hallucination_score = 0.3, rec_drift_detected = False,
            rec_response_time_ms = 5, rec_status = PInt 200, rec_fact_consistency = Some 0.7,
            rec_cpu_time_sec = Some 0, rec_memory_delta_bytes = Some 0, rec_disk_percent = None\<rparr>
   \<and> rec_fact_consistency
       \<lparr>rec_request_id = ''req_1700000000000'', rec_timestamp = ''20250101_000000'',
            rec_model = ''m'', rec_tokens_in = 1, rec_tokens_out = 1,
            rec_hallucination_score = 0.3, rec_drift_detected = False,
            rec_response_time_ms = 5, rec_status = PInt 200, rec_fact_consistency = Some 0.7,
            rec_cpu_time_sec = Some 0, rec_memory_delta_bytes = Some 0, rec_disk_percent = None\<rparr>
     = Some (1 - 0.3)"
proof -
  have run: "fst (log_inference io_ok (tracker_on Map.empty) (PStr ''Hi'') (PStr ''hi'') ''m'' 5
          (Some 1) (Some 1) (PInt 200))
     = Inr \<lparr>rec_request_id = ''req_1700000000000'', rec_timestamp = ''20250101_000000'',
            rec_model = ''m'', rec_tokens_in = 1, rec_tokens_out = 1,
            rec_hallucination_score = 0.3, rec_drift_detected = False,
            rec_response_time_ms = 5, rec_status = PInt 200, rec_fact_consistency = Some 0.7,
            rec_cpu_time_sec = Some 0, rec_memory_delta_bytes = Some 0, rec_disk_percent = None\<rparr>"
    by (simp add: log_inference_def score_example get_fact_consistency_def detect_drift_def
        DriftDetector_init_def io_ok_def tracker_on_def Let_def)
  show ?thesis
    using log_inference_fact_consistency [OF run] run by simp
qed

lemma reset_metrics_storage_path [simp]:
  "storage_path (snd (reset_metrics env self)) = storage_path self"
  by (simp add: reset_metrics_def Let_def split: option.splits)

lemma reset_metrics_file [simp]:
  "metrics_file (snd (reset_metrics env self)) = metrics_file self"
  by (simp add: metrics_file_def)

lemma metrics_file_tracker_on: "metrics_file (tracker_on d) = ''data/metrics/metrics.jsonl''"
  by (simp add: metrics_file_def path_join_def tracker_on_def)

text \<open>
  C9. \<open>reset_metrics\<close> always returns a boolean. When it returns True, the log file is
  empty, the records in memory are cleared, and a log file that existed has its old
  content in the backup named by the timestamp. When it returns False, which is exactly
  when the copy or the truncation fails, the log file is as it was: it is never emptied
  without the backup. After a call on a missing or empty log, whatever the call
  returned, \<open>get_metrics_dataframe\<close> has no rows.
\<close>

theorem reset_metrics_backup_then_truncate:
  "(\<exists>b. fst (reset_metrics env self) = Inr b)
   \<and> (fst (reset_metrics env self) = Inr True \<longrightarrow>
        disk (snd (reset_metrics env self)) (metrics_file self) = Some []
        \<and> metrics (snd (reset_metrics env self)) = []
        \<and> (\<forall>ls. disk self (metrics_file self) = Some ls \<longrightarrow>
              disk (snd (reset_metrics env self)) (metrics_file self @ ''.bak.'' @ io_timestamp env)
                = Some ls))
   \<and> (fst (reset_metrics env self) = Inr False \<longrightarrow>
        disk (snd (reset_metrics env self)) (metrics_file self) = disk self (metrics_file self))
   \<and> (fst (reset_metrics env self) = Inr False \<longleftrightarrow>
        (disk self (metrics_file self) \<noteq> None \<and> \<not> io_copy_ok env) \<or> \<not> io_truncate_ok env)
   \<and> (disk self (metrics_file self) = None \<or> disk self (metrics_file self) = Some [] \<longrightarrow>
        fst (get_metrics_dataframe env' (snd (reset_metrics env self))) = [])"
proof -
  have 1: "\<exists>b. fst (reset_metrics env self) = Inr b"
    by (auto simp: reset_metrics_def Let_def split: option.splits)
  have 2: "fst (reset_metrics env self) = Inr True \<longrightarrow>
        disk (snd (reset_metrics env self)) (metrics_file self) = Some []
        \<and> metrics (snd (reset_metrics env self)) = []
        \<and> (\<forall>ls. disk self (metrics_file self) = Some ls \<longrightarrow>
              disk (snd (reset_metrics env self)) (metrics_file self @ ''.bak.'' @ io_timestamp env)
                = Some ls)"
    by (simp add: reset_metrics_def Let_def split: option.splits)
  have 3: "fst (reset_metrics env self) = Inr False \<longrightarrow>
        disk (snd (reset_metrics env self)) (metrics_file self) = disk self (metrics_file self)"
    by (simp add: reset_metrics_def Let_def split: option.splits)
  have 4: "fst (reset_metrics env self) = Inr False \<longleftrightarrow>
        (disk self (metrics_file self) \<noteq> None \<and> \<not> io_copy_ok env) \<or> \<not> io_truncate_ok env"
    by (auto simp: reset_metrics_def Let_def split: option.splits)
  have 5: "disk self (metrics_file self) = None \<or> disk self (metrics_file self) = Some [] \<longrightarrow>
        fst (get_metrics_dataframe env' (snd (reset_metrics env self))) = []"
  proof
    assume a: "disk self (metrics_file self) = None \<or> disk self (metrics_file self) = Some []"
    have "disk (snd (reset_metrics env self)) (metrics_file self) = None
        \<or> disk (snd (reset_metrics env self)) (metrics_file self) = Some []"
      using a by (auto simp: reset_metrics_def Let_def split: option.splits)
    then show "fst (get_metrics_dataframe env' (snd (reset_metrics env self))) = []"
      by (auto simp: get_metrics_dataframe_def load_metrics_def Let_def split: option.splits)
  qed
  from 1 2 3 4 5 show ?thesis by blast
qed

text \<open>
  A log of one line: the reset succeeds, the backup has the line and the log is empty;
  when the copy fails the reset returns False and the log keeps the line. On a disk
  without a log the reset succeeds and the data frame is empty afterwards.
\<close>

theorem reset_metrics_backup_then_truncate_witness:
  "fst (reset_metrics io_ok (tracker_on [''data/metrics/metrics.jsonl'' \<mapsto> [BadLine]])) = Inr True
   \<and> disk (snd (reset_metrics io_ok (tracker_on [''data/metrics/metrics.jsonl'' \<mapsto> [BadLine]])))
        ''data/metrics/metrics.jsonl.bak.20250101_000000'' = Some [BadLine]
   \<and> disk (snd (reset_metrics io_ok (tracker_on [''data/metrics/metrics.jsonl'' \<mapsto> [BadLine]])))
        ''data/metrics/metrics.jsonl'' = Some []
   \<and> fst (reset_metrics (io_ok\<lparr>io_copy_ok := False\<rparr>)
          (tracker_on [''data/metrics/metrics.jsonl'' \<mapsto> [BadLine]])) = Inr False
   \<and> disk (snd (reset_metrics (io_ok\<lparr>io_copy_ok := False\<rparr>)
          (tracker_on [''data/metrics/metrics.jsonl'' \<mapsto> [BadLine]])))
        ''data/metrics/metrics.jsonl'' = Some [BadLine]
   \<and> fst (reset_metrics io_ok (tracker_on Map.empty)) = Inr True
   \<and> fst (get_metrics_dataframe io_ok (snd (reset_metrics io_ok (tracker_on Map.empty)))) = []"
proof -
  let ?d = "[''data/metrics/metrics.jsonl'' \<mapsto> [BadLine]]"
  have ok: "io_copy_ok io_ok" "io_truncate_ok io_ok" "io_timestamp io_ok = ''20250101_000000''"
    by (simp_all add: io_ok_def)
  have d: "disk (tracker_on ?d) ''data/metrics/metrics.jsonl'' = Some [BadLine]"
    "disk (tracker_on Map.empty) ''data/metrics/metrics.jsonl'' = None"
    by (simp_all add: tracker_on_def)
  show ?thesis
    using reset_metrics_backup_then_truncate [of io_ok "tracker_on ?d" io_ok]
      reset_metrics_backup_then_truncate [of "io_ok\<lparr>io_copy_ok := False\<rparr>" "tracker_on ?d" io_ok]
      reset_metrics_backup_then_truncate [of io_ok "tracker_on Map.empty" io_ok]
    unfolding metrics_file_tracker_on by (auto simp: ok d)
qed

lemma fill_resource_columns_length [simp]: "length (fill_resource_columns df) = length df"
  by (simp add: fill_resource_columns_def Let_def)

lemma fill_resource_columns_model [simp]:
  "map rec_model (fill_resource_columns df) = map rec_model df"
  by (simp add: fill_resource_columns_def Let_def comp_def)

lemma fill_resource_columns_Nil [simp]: "fill_resource_columns df = [] \<longleftrightarrow> df = []"
  using fill_resource_columns_length [of df] by (metis length_0_conv)


lemma set_unique [simp]: "set (unique xs) = set xs"
  by (induction xs) auto

lemma series_mean_Nil [simp]: "series_mean [] = NaN"
  by (simp add: series_mean_def present_def)



section \<open>Properties of the audit middleware\<close>

lemma log_audit_info_skip:
  "response_body = [] \<or> 400 \<le> response_status \<Longrightarrow>
     log_audit_info self env request_body response_body response_status st = st"
  by (simp add: log_audit_info_def)

text \<open>
  C3. When the handler answers with a status of 400 or more, or the captured response body
  is empty (the status is outside [200,300) so that nothing is read, the stream raises, or
  the stream holds no byte), \<open>dispatch\<close> leaves the tracker as it was, whatever the
  tracker is: \<open>log_inference\<close> is not called. \<open>_log_audit_info\<close> itself returns at
  once on an empty body or a status of 400 or more.
\<close>

theorem dispatch_skips_failed_responses:
  assumes "call_next env req = Inr resp"
      and "400 \<le> status_code resp
           \<or> \<not> (200 \<le> status_code resp \<and> status_code resp < 300)
           \<or> body_iterator resp = None
           \<or> (\<exists>chunks. body_iterator resp = Some chunks \<and> concat chunks = [])"
  shows "snd (dispatch self env req st) = st
       \<and> (\<forall>request_body response_body response_status.
             response_body = [] \<or> 400 \<le> response_status \<longrightarrow>
             log_audit_info self env request_body response_body response_status st = st)"
proof -
  have "snd (dispatch self env req st) = st"
    using assms
    by (auto simp: dispatch_def log_audit_info_skip Let_def split: option.splits sum.splits)
  then show ?thesis by (simp add: log_audit_info_skip)
qed

text \<open>A status 500 with a body: the tracker that keeps its calls has received none.\<close>

theorem dispatch_skips_failed_responses_witness:
  "snd (dispatch recording_middleware
          (plain_env \<lparr>status_code = 500, body_iterator = Some [''Internal error''],
                      headers = [], media_type = None\<rparr>)
          \<lparr>url_path = ''/generate'', http_method = ''POST'',
           json_body = Some (PDict [(''prompt'', PStr ''hello'')])\<rparr>
          []) = []"
  using dispatch_skips_failed_responses [where self = recording_middleware
      and env = "plain_env \<lparr>status_code = 500, body_iterator = Some [''Internal error''],
                      headers = [], media_type = None\<rparr>"
      and req = "\<lparr>url_path = ''/generate'', http_method = ''POST'',
           json_body = Some (PDict [(''prompt'', PStr ''hello'')])\<rparr>"
      and resp = "\<lparr>status_code = 500, body_iterator = Some [''Internal error''],
                      headers = [], media_type = None\<rparr>"
      and st = "[]"]
  by (simp add: plain_env_def)

lemma dispatch_returns_response:
  assumes "call_next env req = Inr resp"
  shows "\<exists>resp'. fst (dispatch self env req st) = Inr resp' \<and> status_code resp' = status_code resp"
  using assms by (auto simp: dispatch_def Let_def split: option.splits sum.splits)

lemma log_audit_info_extracted:
  assumes "response_body \<noteq> []" and "response_status < 400"
      and "response_json = (case json_loads env response_body of
                              Some v \<Rightarrow> v
                            | None \<Rightarrow> PDict [(''response'', PStr (decode_utf8 env response_body))])"
      and "extract_model_name self request_body = Inr model_name"
      and "extract_prompt self request_body = Inr prompt"
      and "extract_completion self request_body response_json = Inr completion"
  shows "log_audit_info self env request_body response_body response_status st =
           snd (mw_log_inference self
                  \<lparr>lc_model = model_name, lc_prompt = prompt, lc_completion = completion,
                   lc_response_time_ms = elapsed_ms env, lc_status = response_status\<rparr> st)"
  using assms by (simp add: log_audit_info_def Let_def)

lemma log_audit_info_extractor_raises:
  assumes "response_json = (case json_loads env response_body of
                              Some v \<Rightarrow> v
                            | None \<Rightarrow> PDict [(''response'', PStr (decode_utf8 env response_body))])"
      and "extract_model_name self request_body = Inl e
           \<or> extract_prompt self request_body = Inl e
           \<or> extract_completion self request_body response_json = Inl e"
  shows "log_audit_info self env request_body response_body response_status st = st"
  using assms by (auto simp: log_audit_info_def Let_def split: sum.splits)

lemma dispatch_audited:
  assumes "should_audit_path self (url_path req)"
      and "(if http_method req \<noteq> ''GET'' then json_body req else Some (PDict [])) = Some request_body"
      and "call_next env req = Inr resp"
      and "200 \<le> status_code resp" and "status_code resp < 300"
      and "body_iterator resp = Some chunks"
  shows "snd (dispatch self env req st) =
           log_audit_info self env request_body (concat chunks) (status_code resp) st"
  using assms unfolding dispatch_def by (simp add: Let_def)

text \<open>
  C4, as amended. For a request on an audited path whose body is read (the empty object
  for GET) and a 2xx response whose body is not empty, \<open>log_inference\<close> is called once
  with what the three extractors of the middleware return, the completion extractor being
  applied to the parsed response body or, when the body does not parse as JSON, to the
  object that holds the decoded raw body under the key \<open>response\<close>; when an extractor
  raises, nothing is logged. The default extractors give the model name "default_model"
  and the empty prompt for a missing key, the response or else the completion field of a
  parsed object, and so the raw text for a body that does not parse. A request body that
  cannot be read as JSON is not audited: the handler is called and the tracker is
  unchanged. Whenever the handler returns a response, the caller receives a response,
  with the status of the handler's.
\<close>

theorem dispatch_extraction_defaults:
  "(should_audit_path self (url_path req)
      \<and> (if http_method req \<noteq> ''GET'' then json_body req else Some (PDict [])) = Some request_body
      \<and> call_next env req = Inr resp
      \<and> 200 \<le> status_code resp \<and> status_code resp < 300
      \<and> body_iterator resp = Some chunks \<and> concat chunks \<noteq> []
      \<and> response_json = (case json_loads env (concat chunks) of
                            Some v \<Rightarrow> v
                          | None \<Rightarrow> PDict [(''response'', PStr (decode_utf8 env (concat chunks)))])
    \<longrightarrow>
      (extract_model_name self request_body = Inr model_name
         \<and> extract_prompt self request_body = Inr prompt
         \<and> extract_completion self request_body response_json = Inr completion
       \<longrightarrow> snd (dispatch self env req st) =
             snd (mw_log_inference self
                    \<lparr>lc_model = model_name, lc_prompt = prompt, lc_completion = completion,
                     lc_response_time_ms = elapsed_ms env, lc_status = status_code resp\<rparr> st))
      \<and> (extract_model_name self request_body = Inl e
            \<or> extract_prompt self request_body = Inl e
            \<or> extract_completion self request_body response_json = Inl e
          \<longrightarrow> snd (dispatch self env req st) = st))
   \<and> default_extract_model_name (PDict d) = Inr (dict_get d ''model'' (PStr ''default_model''))
   \<and> default_extract_prompt (PDict d) = Inr (dict_get d ''prompt'' (PStr []))
   \<and> default_extract_completion request_body (PDict r)
        = Inr (dict_get r ''response'' (dict_get r ''completion'' (PStr [])))
   \<and> (map_of d ''model'' = None \<longrightarrow> default_extract_model_name (PDict d) = Inr (PStr ''default_model''))
   \<and> (map_of d ''prompt'' = None \<longrightarrow> default_extract_prompt (PDict d) = Inr (PStr []))
   \<and> default_extract_completion request_body (PDict [(''response'', PStr raw)]) = Inr (PStr raw)
   \<and> (should_audit_path self (url_path req) \<and> http_method req \<noteq> ''GET'' \<and> json_body req = None
      \<longrightarrow> dispatch self env req st = (call_next env req, st))
   \<and> (call_next env req = Inr resp
      \<longrightarrow> (\<exists>resp'. fst (dispatch self env req st) = Inr resp'
             \<and> status_code resp' = status_code resp))"
proof -
  have a: "should_audit_path self (url_path req)
      \<and> (if http_method req \<noteq> ''GET'' then json_body req else Some (PDict [])) = Some request_body
      \<and> call_next env req = Inr resp
      \<and> 200 \<le> status_code resp \<and> status_code resp < 300
      \<and> body_iterator resp = Some chunks \<and> concat chunks \<noteq> []
      \<and> response_json = (case json_loads env (concat chunks) of
                            Some v \<Rightarrow> v
                          | None \<Rightarrow> PDict [(''response'', PStr (decode_utf8 env (concat chunks)))])
    \<longrightarrow>
      (extract_model_name self request_body = Inr model_name
         \<and> extract_prompt self request_body = Inr prompt
         \<and> extract_completion self request_body response_json = Inr completion
       \<longrightarrow> snd (dispatch self env req st) =
             snd (mw_log_inference self
                    \<lparr>lc_model = model_name, lc_prompt = prompt, lc_completion = completion,
                     lc_response_time_ms = elapsed_ms env, lc_status = status_code resp\<rparr> st))
      \<and> (extract_model_name self request_body = Inl e
            \<or> extract_prompt self request_body = Inl e
            \<or> extract_completion self request_body response_json = Inl e
          \<longrightarrow> snd (dispatch self env req st) = st)"
  proof (intro impI, elim conjE)
    assume audit: "should_audit_path self (url_path req)"
      and body: "(if http_method req \<noteq> ''GET'' then json_body req else Some (PDict [])) = Some request_body"
      and nxt: "call_next env req = Inr resp"
      and ok: "200 \<le> status_code resp" "status_code resp < 300"
      and it: "body_iterator resp = Some chunks" and ne: "concat chunks \<noteq> []"
      and js: "response_json = (case json_loads env (concat chunks) of
                            Some v \<Rightarrow> v
                          | None \<Rightarrow> PDict [(''response'', PStr (decode_utf8 env (concat chunks)))])"
    note d = dispatch_audited [OF audit body nxt ok it, of st]
    have lt: "status_code resp < 400" using ok by simp
    have 1: "extract_model_name self request_body = Inr model_name
         \<and> extract_prompt self request_body = Inr prompt
         \<and> extract_completion self request_body response_json = Inr completion
       \<longrightarrow> snd (dispatch self env req st) =
             snd (mw_log_inference self
                    \<lparr>lc_model = model_name, lc_prompt = prompt, lc_completion = completion,
                     lc_response_time_ms = elapsed_ms env, lc_status = status_code resp\<rparr> st)"
      unfolding d
    proof (intro impI, elim conjE)
      assume "extract_model_name self request_body = Inr model_name"
        and "extract_prompt self request_body = Inr prompt"
        and "extract_completion self request_body response_json = Inr completion"
      then show "log_audit_info self env request_body (concat chunks) (status_code resp) st =
             snd (mw_log_inference self
                    \<lparr>lc_model = model_name, lc_prompt = prompt, lc_completion = completion,
                     lc_response_time_ms = elapsed_ms env, lc_status = status_code resp\<rparr> st)"
        by (rule log_audit_info_extracted [OF ne lt js])
    qed
    have 2: "extract_model_name self request_body = Inl e
            \<or> extract_prompt self request_body = Inl e
            \<or> extract_completion self request_body response_json = Inl e
          \<longrightarrow> snd (dispatch self env req st) = st"
      unfolding d by (rule impI) (rule log_audit_info_extractor_raises [OF js])
    from 1 2 show "(extract_model_name self request_body = Inr model_name
         \<and> extract_prompt self request_body = Inr prompt
         \<and> extract_completion self request_body response_json = Inr completion
       \<longrightarrow> snd (dispatch self env req st) =
             snd (mw_log_inference self
                    \<lparr>lc_model = model_name, lc_prompt = prompt, lc_completion = completion,
                     lc_response_time_ms = elapsed_ms env, lc_status = status_code resp\<rparr> st))
      \<and> (extract_model_name self request_body = Inl e
            \<or> extract_prompt self request_body = Inl e
            \<or> extract_completion self request_body response_json = Inl e
          \<longrightarrow> snd (dispatch self env req st) = st)"
      by (rule conjI)
  qed
  have b: "default_extract_model_name (PDict d) = Inr (dict_get d ''model'' (PStr ''default_model''))"
    "default_extract_prompt (PDict d) = Inr (dict_get d ''prompt'' (PStr []))"
    "default_extract_completion request_body (PDict r)
        = Inr (dict_get r ''response'' (dict_get r ''completion'' (PStr [])))"
    by (simp_all add: default_extract_model_name_def default_extract_prompt_def
        default_extract_completion_def)
  have c: "map_of d ''model'' = None \<longrightarrow> default_extract_model_name (PDict d) = Inr (PStr ''default_model'')"
    "map_of d ''prompt'' = None \<longrightarrow> default_extract_prompt (PDict d) = Inr (PStr [])"
    "default_extract_completion request_body (PDict [(''response'', PStr raw)]) = Inr (PStr raw)"
    by (simp_all add: default_extract_model_name_def default_extract_prompt_def
        default_extract_completion_def dict_get_def)
  have d: "should_audit_path self (url_path req) \<and> http_method req \<noteq> ''GET'' \<and> json_body req = None
      \<longrightarrow> dispatch self env req st = (call_next env req, st)"
    by (simp add: dispatch_def)
  have e: "call_next env req = Inr resp
      \<longrightarrow> (\<exists>resp'. fst (dispatch self env req st) = Inr resp'
             \<and> status_code resp' = status_code resp)"
    by (rule impI) (rule dispatch_returns_response)
  from a b c d e show ?thesis by (intro conjI)
qed

text \<open>
  With the default extractors: a POST with the empty object answered by the body "plain
  text" is logged with the default model, the empty prompt and the raw text as completion;
  a GET answered by an empty JSON object is logged with the three defaults.
\<close>

theorem dispatch_extraction_defaults_witness:
  "snd (dispatch recording_middleware
          (plain_env \<lparr>status_code = 200, body_iterator = Some [''plain '', ''text''],
                      headers = [], media_type = None\<rparr>)
          \<lparr>url_path = ''/generate'', http_method = ''POST'', json_body = Some (PDict [])\<rparr> [])
   = [\<lparr>lc_model = PStr ''default_model'', lc_prompt = PStr [],
       lc_completion = PStr ''plain text'', lc_response_time_ms = 12, lc_status = 200\<rparr>]
   \<and> snd (dispatch recording_middleware
          (json_env (PDict []) \<lparr>status_code = 200, body_iterator = Some [''{}''],
                                 headers = [], media_type = None\<rparr>)
          \<lparr>url_path = ''/generate'', http_method = ''GET'', json_body = None\<rparr> [])
   = [\<lparr>lc_model = PStr ''default_model'', lc_prompt = PStr [],
       lc_completion = PStr [], lc_response_time_ms = 12, lc_status = 200\<rparr>]"
proof -
  let ?resp = "\<lparr>status_code = 200, body_iterator = Some [''plain '', ''text''],
                 headers = [], media_type = None\<rparr>"
  let ?req = "\<lparr>url_path = ''/generate'', http_method = ''POST'', json_body = Some (PDict [])\<rparr>"
  let ?resp2 = "\<lparr>status_code = 200, body_iterator = Some [''{}''],
                 headers = [], media_type = None\<rparr>"
  let ?req2 = "\<lparr>url_path = ''/generate'', http_method = ''GET'', json_body = None\<rparr>"
  have mw: "should_audit_path recording_middleware p"
    "extract_model_name recording_middleware = default_extract_model_name"
    "extract_prompt recording_middleware = default_extract_prompt"
    "extract_completion recording_middleware = default_extract_completion"
    "mw_log_inference recording_middleware = recording_log_inference" for p
    by (simp_all add: should_audit_path_def recording_middleware_def AuditMiddleware_init_def)
  have ex: "default_extract_model_name (PDict []) = Inr (PStr ''default_model'')"
    "default_extract_prompt (PDict []) = Inr (PStr [])"
    "default_extract_completion (PDict []) (PDict [(''response'', PStr ''plain text'')])
       = Inr (PStr ''plain text'')"
    "default_extract_completion (PDict []) (PDict []) = Inr (PStr [])"
    by (simp_all add: default_extract_model_name_def default_extract_prompt_def
        default_extract_completion_def dict_get_def)
  have "snd (dispatch recording_middleware (plain_env ?resp) ?req []) =
          snd (mw_log_inference recording_middleware
                 \<lparr>lc_model = PStr ''default_model'', lc_prompt = PStr [],
                  lc_completion = PStr ''plain text'',
                  lc_response_time_ms = elapsed_ms (plain_env ?resp),
                  lc_status = status_code ?resp\<rparr> [])"
    using dispatch_extraction_defaults [where self = recording_middleware and req = ?req
        and request_body = "PDict []" and env = "plain_env ?resp" and resp = ?resp
        and chunks = "[''plain '', ''text'']"
        and response_json = "PDict [(''response'', PStr ''plain text'')]"
        and model_name = "PStr ''default_model''" and prompt = "PStr []"
        and completion = "PStr ''plain text''" and st = "[]"]
    by (simp add: mw ex plain_env_def)
  moreover have "snd (dispatch recording_middleware (json_env (PDict []) ?resp2) ?req2 []) =
          snd (mw_log_inference recording_middleware
                 \<lparr>lc_model = PStr ''default_model'', lc_prompt = PStr [],
                  lc_completion = PStr [],
                  lc_response_time_ms = elapsed_ms (json_env (PDict []) ?resp2),
                  lc_status = status_code ?resp2\<rparr> [])"
    using dispatch_extraction_defaults [where self = recording_middleware and req = ?req2
        and request_body = "PDict []" and env = "json_env (PDict []) ?resp2" and resp = ?resp2
        and chunks = "[''{}'']" and response_json = "PDict []"
        and model_name = "PStr ''default_model''" and prompt = "PStr []"
        and completion = "PStr []" and st = "[]"]
    by (simp add: mw ex json_env_def)
  ultimately show ?thesis
    by (simp add: mw recording_log_inference_def plain_env_def json_env_def)
qed

text \<open>
  C4 as stated fails twice. A POST whose body cannot be read as JSON, answered with status
  200 and the body "hello": the caller receives the response and the tracker has received
  no call, so there is no audit with the empty prompt and the generic model. And with the
  middleware as the application configures it, a response body that does not parse is
  logged with the empty completion, not with the raw text.
\<close>

theorem dispatch_malformed_request_counterexample:
  "dispatch recording_middleware
     (plain_env \<lparr>status_code = 200, body_iterator = Some [''hello''],
                 headers = [], media_type = None\<rparr>)
     \<lparr>url_path = ''/generate'', http_method = ''POST'', json_body = None\<rparr> []
   = (Inr \<lparr>status_code = 200, body_iterator = Some [''hello''], headers = [], media_type = None\<rparr>,
      [])
   \<and> snd (dispatch (api_middleware ''smollm2:360m'' recording_log_inference (\<lambda>p c. None))
          (plain_env \<lparr>status_code = 200, body_iterator = Some [''plain text''],
                      headers = [], media_type = None\<rparr>)
          \<lparr>url_path = ''/v1/infer'', http_method = ''POST'',
           json_body = Some (PDict [(''prompt'', PStr ''hi'')])\<rparr> [])
   = [\<lparr>lc_model = PStr ''smollm2:360m'', lc_prompt = PStr ''hi'', lc_completion = PStr [],
       lc_response_time_ms = 12, lc_status = 200\<rparr>]"
proof -
  have 1: "dispatch recording_middleware
     (plain_env \<lparr>status_code = 200, body_iterator = Some [''hello''],
                 headers = [], media_type = None\<rparr>)
     \<lparr>url_path = ''/generate'', http_method = ''POST'', json_body = None\<rparr> []
   = (Inr \<lparr>status_code = 200, body_iterator = Some [''hello''], headers = [], media_type = None\<rparr>,
      [])"
    by (simp add: dispatch_def should_audit_path_def recording_middleware_def
        AuditMiddleware_init_def plain_env_def)
  let ?mw = "api_middleware ''smollm2:360m'' recording_log_inference (\<lambda>p c. None)"
  let ?resp = "\<lparr>status_code = 200, body_iterator = Some [''plain text''],
                      headers = [], media_type = None\<rparr>"
  let ?req = "\<lparr>url_path = ''/v1/infer'', http_method = ''POST'',
           json_body = Some (PDict [(''prompt'', PStr ''hi'')])\<rparr>"
  have audit: "should_audit_path ?mw (url_path ?req)"
    by (simp add: should_audit_path_def api_middleware_def AuditMiddleware_init_def)
  have d: "snd (dispatch ?mw (plain_env ?resp) ?req []) =
             log_audit_info ?mw (plain_env ?resp) (PDict [(''prompt'', PStr ''hi'')])
               (concat [''plain text'']) (status_code ?resp) []"
    by (rule dispatch_audited [OF audit]) (simp_all add: plain_env_def)
  have l: "log_audit_info ?mw (plain_env ?resp) (PDict [(''prompt'', PStr ''hi'')])
               (concat [''plain text'']) (status_code ?resp) [] =
           snd (mw_log_inference ?mw
                  \<lparr>lc_model = PStr ''smollm2:360m'', lc_prompt = PStr ''hi'', lc_completion = PStr [],
                   lc_response_time_ms = elapsed_ms (plain_env ?resp),
                   lc_status = status_code ?resp\<rparr> [])"
    by (rule log_audit_info_extracted [where response_json = "PDict [(''response'', PStr ''plain text'')]"])
       (simp_all add: plain_env_def api_middleware_def AuditMiddleware_init_def py_get_def dict_get_def)
  have 2: "snd (dispatch ?mw (plain_env ?resp) ?req []) =
       [\<lparr>lc_model = PStr ''smollm2:360m'', lc_prompt = PStr ''hi'', lc_completion = PStr [],
         lc_response_time_ms = 12, lc_status = 200\<rparr>]"
    unfolding d l
    by (simp add: api_middleware_def AuditMiddleware_init_def recording_log_inference_def plain_env_def)
  from 1 2 show ?thesis by (rule conjI)
qed

end
